theory Spec2Isabelle
  imports Complex_Main
begin

section \<open>The ChronicMind memory engine\<close>

text \<open>
  A shallow embedding of the memory engine of ChronicMind (the module that exports
  \<open>cosineSimilarity\<close>, \<open>simpleEmbedding\<close>, \<open>extractMemoryFromConversation\<close>,
  \<open>storeExtractedMemory\<close>, \<open>findRelevantMemories\<close> and \<open>buildContextFromMemory\<close>)
  together with the part of \<open>server/storage.ts\<close> and \<open>shared/schema.ts\<close> it calls.

  Conventions of the model.
  \<^item> A JavaScript \<open>number\<close> is a \<open>real\<close>: arithmetic is exact. Rounding, overflow to
    \<open>Infinity\<close> and \<open>NaN\<close> are outside the model; every statement about a score or a
    vector below is a statement about the exact value the floating-point code approximates.
  \<^item> A JavaScript string is a \<open>string\<close>, a list of characters with codes below 256
    (\<open>charCodeAt\<close> is \<open>of_char\<close>).
  \<^item> A thrown exception, or a rejected promise, is the left injection of a sum type.
  \<^item> The database is an explicit \<open>storage\<close> value that is passed in and returned.
\<close>

datatype error = TypeError | SyntaxError | OracleError | DbError

subsection \<open>Rows of the schema\<close>

text \<open>
  \<open>ExtractedFact\<close> is an element of \<open>ExtractedMemory.facts\<close>. The value is whatever
  \<open>JSON.parse\<close> produced, so the \<open>confidence\<close> property may be missing: \<open>None\<close>.
\<close>

record ExtractedFact =
  category :: string
  key :: string
  "value" :: string
  confidence :: "real option"

record ExtractedMemory =
  facts :: "ExtractedFact list"

text \<open>\<open>InsertMemoryFact\<close>: the object handed to \<open>db.insert(memoryFacts).values\<close>.\<close>

record InsertMemoryFact =
  userId :: string
  category :: string
  key :: string
  "value" :: string
  confidence :: "real option"
  sourceMessageId :: "string option"

text \<open>
  \<open>MemoryFact\<close>: a row of table \<open>memory_facts\<close>. The generated uuid is a counter, the
  timestamps are readings of a clock, and a nullable column is an \<open>option\<close>.
\<close>

record MemoryFact =
  id :: nat
  userId :: string
  category :: string
  key :: string
  "value" :: string
  confidence :: "real option"
  sourceMessageId :: "string option"
  createdAt :: nat
  updatedAt :: nat

record MemorySummary =
  id :: nat
  userId :: string
  content :: string
  periodStart :: nat
  periodEnd :: nat
  messageCount :: "nat option"
  createdAt :: nat

record MemoryEmbedding =
  id :: nat
  userId :: string
  content :: string
  embedding :: "real list"
  sourceType :: string
  sourceId :: "string option"
  createdAt :: nat

text \<open>Of a \<open>Message\<close> the engine reads the role and the content only.\<close>

record Message =
  role :: string
  content :: string

record storage =
  users :: "string list"
  memoryFacts :: "MemoryFact list"
  memorySummaries :: "MemorySummary list"
  memoryEmbeddings :: "MemoryEmbedding list"
  nextId :: nat
  clock :: nat

subsection \<open>Storing extracted facts\<close>






subsection \<open>The similarity engine\<close>

text \<open>
  The loop of \<open>cosineSimilarity\<close> runs over the indices of \<open>a\<close>, after the lengths
  were found equal, and carries the three running sums.
\<close>

fun cosineLoop :: "real list \<Rightarrow> real list \<Rightarrow> real \<times> real \<times> real \<Rightarrow> real \<times> real \<times> real" where
  "cosineLoop (x # xs) (y # ys) (dotProduct, normA, normB) =
     cosineLoop xs ys (dotProduct + x * y, normA + x * x, normB + y * y)"
| "cosineLoop _ _ totals = totals"

definition cosineSimilarity :: "real list \<Rightarrow> real list \<Rightarrow> real" where
  "cosineSimilarity a b =
     (if length a \<noteq> length b then 0
      else case cosineLoop a b (0, 0, 0) of
        (dotProduct, normA, normB) \<Rightarrow>
          if normA = 0 \<or> normB = 0 then 0
          else dotProduct / (sqrt normA * sqrt normB))"


subsection \<open>The embedder\<close>

text \<open>
  The character classes of the regular expressions: \<open>\w\<close> is \<open>[A-Za-z0-9_]\<close>, and
  \<open>\s\<close> is, among the codes below 256, tab, line feed, vertical tab, form feed,
  carriage return, space and the no-break space.
\<close>

definition isWordChar :: "char \<Rightarrow> bool" where
  "isWordChar c =
     (let n = (of_char c :: nat)
      in (48 \<le> n \<and> n \<le> 57) \<or> (65 \<le> n \<and> n \<le> 90) \<or> n = 95 \<or> (97 \<le> n \<and> n \<le> 122))"

definition isSpace :: "char \<Rightarrow> bool" where
  "isSpace c = ((of_char c :: nat) \<in> {9, 10, 11, 12, 13, 32, 160})"

text \<open>
  \<open>toLowerCase\<close> on codes below 256: the letters \<open>A\<close> to \<open>Z\<close> and the capital letters
  of Latin-1 (codes 192 to 222 without the multiplication sign 215) move up by 32.
\<close>

definition lowerChar :: "char \<Rightarrow> char" where
  "lowerChar c =
     (let n = (of_char c :: nat)
      in if (65 \<le> n \<and> n \<le> 90) \<or> (192 \<le> n \<and> n \<le> 222 \<and> n \<noteq> 215)
         then char_of (n + 32) else c)"

definition toLowerCase :: "string \<Rightarrow> string" where
  "toLowerCase s = map lowerChar s"

text \<open>\<open>replace(/[^\w\s]/g, "")\<close>: every character that is neither a word character
  nor whitespace is deleted.\<close>

definition stripNonWord :: "string \<Rightarrow> string" where
  "stripNonWord s = filter (\<lambda>c. isWordChar c \<or> isSpace c) s"

text \<open>
  \<open>split(/\s+/)\<close>: the pieces between the maximal runs of whitespace. A run at the
  start of the text leaves an empty first piece, one at the end an empty last piece, and
  the empty text gives the one piece \<open>""\<close>. \<open>cur\<close> is the piece being read, and
  \<open>inRun\<close> says that the last character read was whitespace.
\<close>

fun splitLoop :: "string \<Rightarrow> bool \<Rightarrow> string \<Rightarrow> string list" where
  "splitLoop cur inRun [] = [cur]"
| "splitLoop cur inRun (c # cs) =
     (if isSpace c then (if inRun then splitLoop cur True cs else cur # splitLoop [] True cs)
      else splitLoop (cur @ [c]) False cs)"

definition splitWhitespace :: "string \<Rightarrow> string list" where
  "splitWhitespace s = splitLoop [] False s"

text \<open>
  The inner loop over the characters of the word at position \<open>i\<close>, from offset \<open>j\<close>,
  and the outer loop over the words. The bucket index is below 256, the length of the
  vector, so every read and write is in range.
\<close>

fun addWord :: "nat \<Rightarrow> nat \<Rightarrow> string \<Rightarrow> real list \<Rightarrow> real list" where
  "addWord i j [] vector = vector"
| "addWord i j (c # cs) vector =
     (let idx = (of_char c + i + j) mod 256
      in addWord i (Suc j) cs (vector[idx := vector ! idx + 1 / (real i + 1)]))"

fun addWords :: "nat \<Rightarrow> string list \<Rightarrow> real list \<Rightarrow> real list" where
  "addWords i [] vector = vector"
| "addWords i (word # rest) vector = addWords (Suc i) rest (addWord i 0 word vector)"

definition sumSquares :: "real list \<Rightarrow> real" where
  "sumSquares vector = foldl (\<lambda>sum val. sum + val * val) 0 vector"

definition simpleEmbedding :: "string \<Rightarrow> real list" where
  "simpleEmbedding text =
     (let words = splitWhitespace (stripNonWord (toLowerCase text));
          vector = addWords 0 words (replicate 256 0);
          norm = sqrt (sumSquares vector)
      in if norm > 0 then map (\<lambda>v. v / norm) vector else vector)"

subsection \<open>The embedder as the specification words it\<close>





subsection \<open>Retrieval\<close>

text \<open>
  The reads of \<open>DatabaseStorage\<close>: the rows of one user, facts by \<open>updated_at\<close>
  descending, summaries by \<open>period_end\<close> descending, embeddings in table order. (The
  order SQL gives to rows with equal sort keys is not fixed; the model keeps table order.)
\<close>

definition getMemoryFacts :: "storage \<Rightarrow> string \<Rightarrow> MemoryFact list" where
  "getMemoryFacts st uid =
     sort_key (\<lambda>f. - int (MemoryFact.updatedAt f))
       (filter (\<lambda>f. MemoryFact.userId f = uid) (memoryFacts st))"

definition getMemorySummaries :: "storage \<Rightarrow> string \<Rightarrow> MemorySummary list" where
  "getMemorySummaries st uid =
     sort_key (\<lambda>s. - int (MemorySummary.periodEnd s))
       (filter (\<lambda>s. MemorySummary.userId s = uid) (memorySummaries st))"

definition getMemoryEmbeddings :: "storage \<Rightarrow> string \<Rightarrow> MemoryEmbedding list" where
  "getMemoryEmbeddings st uid =
     filter (\<lambda>e. MemoryEmbedding.userId e = uid) (memoryEmbeddings st)"

text \<open>
  \<open>sort((a, b) => b.score - a.score)\<close>: a stable sort, by descending score, of the
  items paired with their scores.
\<close>

definition sortByScore :: "('a \<times> real) list \<Rightarrow> ('a \<times> real) list" where
  "sortByScore scored = sort_key (\<lambda>p. - snd p) scored"

text \<open>
  \<open>slice(0, end)\<close> of the language: \<open>end\<close> is truncated towards zero to an integer;
  a negative integer counts from the end of the array, and the result is the elements
  before that index.
\<close>

definition toIntegerOrInfinity :: "real \<Rightarrow> int" where
  "toIntegerOrInfinity x = (if 0 \<le> x then \<lfloor>x\<rfloor> else \<lceil>x\<rceil>)"

definition sliceTo :: "'a list \<Rightarrow> real \<Rightarrow> 'a list" where
  "sliceTo xs end =
     (let len = int (length xs);
          relativeEnd = toIntegerOrInfinity end;
          final = (if relativeEnd < 0 then max (len + relativeEnd) 0 else min relativeEnd len)
      in take (nat final) xs)"

record RelevantMemories =
  facts :: "MemoryFact list"
  summaries :: "MemorySummary list"
  embeddings :: "MemoryEmbedding list"

text \<open>The parameter \<open>limit\<close> is optional and defaults to 5.\<close>

definition findRelevantMemories ::
  "storage \<Rightarrow> string \<Rightarrow> string \<Rightarrow> real option \<Rightarrow> RelevantMemories" where
  "findRelevantMemories st uid query limitArg =
     (let limit = (case limitArg of None \<Rightarrow> 5 | Some l \<Rightarrow> l);
          queryEmbedding = simpleEmbedding query;
          allFacts = getMemoryFacts st uid;
          allSummaries = getMemorySummaries st uid;
          allEmbeddings = getMemoryEmbeddings st uid;
          scoredEmbeddings =
            sliceTo (sortByScore (map (\<lambda>emb.
              (emb, cosineSimilarity queryEmbedding (MemoryEmbedding.embedding emb)))
              allEmbeddings)) limit;
          scoredFacts =
            sliceTo (sortByScore (map (\<lambda>f.
              (f, cosineSimilarity queryEmbedding
                    (simpleEmbedding (MemoryFact.key f @ '': '' @ MemoryFact.value f))))
              allFacts)) limit;
          scoredSummaries =
            sliceTo (sortByScore (map (\<lambda>summary.
              (summary, cosineSimilarity queryEmbedding
                          (simpleEmbedding (MemorySummary.content summary))))
              allSummaries)) (of_int \<lceil>limit / 2\<rceil>)
      in \<lparr> facts = map fst scoredFacts,
           summaries = map fst scoredSummaries,
           embeddings = map fst scoredEmbeddings \<rparr>)"


subsection \<open>Extraction\<close>

text \<open>
  A JSON value, as \<open>JSON.parse\<close> returns it. The function returns the parsed value under
  a type assertion that checks nothing, so its result is any JSON value.
\<close>

datatype json =
  JNull
  | JBool bool
  | JNumber real
  | JString string
  | JArray "json list"
  | JObject "(string \<times> json) list"

text \<open>The object \<open>{ facts: [] }\<close>.\<close>

definition emptyMemory :: json where
  "emptyMemory = JObject [(''facts'', JArray [])]"

text \<open>\<open>Array.prototype.join\<close>.\<close>

fun joinWith :: "string \<Rightarrow> string list \<Rightarrow> string" where
  "joinWith sep [] = []"
| "joinWith sep [x] = x"
| "joinWith sep (x # y # rest) = x @ sep @ joinWith sep (y # rest)"

definition MEMORY_EXTRACTION_PROMPT :: string where
  \<open>MEMORY_EXTRACTION_PROMPT =
     ''Analyze this conversation and extract structured facts about the user. Focus on:\<newline>'' @
     ''- Preferences (likes, dislikes, habits)\<newline>'' @
     ''- Goals (short-term and long-term objectives)\<newline>'' @
     ''- Constraints (limitations, restrictions, requirements)\<newline>'' @
     ''- Skills (abilities, expertise, experience)\<newline>'' @
     ''- Projects (current work, tasks, initiatives)\<newline>'' @
     ''- Personal (name, location, relationships, important details)\<newline>'' @
     ''\<newline>'' @
     ''Return a JSON object with this structure:\<newline>'' @
     ''{\<newline>'' @
     ''  "facts": [\<newline>'' @
     ''    {\<newline>'' @
     ''      "category": "preferences|goals|constraints|skills|projects|personal",\<newline>'' @
     ''      "key": "brief label",\<newline>'' @
     ''      "value": "detailed information",\<newline>'' @
     ''      "confidence": 0.0-1.0\<newline>'' @
     ''    }\<newline>'' @
     ''  ]\<newline>'' @
     ''}\<newline>'' @
     ''\<newline>'' @
     ''Only extract facts that are clearly stated or strongly implied. Be concise but informative.''\<close>

definition extractionPrompt :: "Message list \<Rightarrow> string" where
  "extractionPrompt messages =
     (let conversationText =
            joinWith ''\<newline>\<newline>''
              (map (\<lambda>m. Message.role m @ '': '' @ Message.content m) messages)
      in MEMORY_EXTRACTION_PROMPT @ ''\<newline>\<newline>Conversation:\<newline>'' @ conversationText)"

text \<open>
  \<open>response.match(/\{[\s\S]*\}/)\<close>: the match starts at the first \<open>{\<close> that has a
  \<open>}\<close> somewhere after it, which is the first \<open>{\<close> of the text if any has, and the
  greedy star takes it to the last \<open>}\<close> of the text.
\<close>

definition jsonMatch :: "string \<Rightarrow> string option" where
  "jsonMatch response =
     (case dropWhile (\<lambda>c. c \<noteq> CHR ''{'') response of
        [] \<Rightarrow> None
      | brace # rest \<Rightarrow>
          (case rev (dropWhile (\<lambda>c. c \<noteq> CHR ''}'') (rev rest)) of
             [] \<Rightarrow> None
           | inner \<Rightarrow> Some (brace # inner)))"

text \<open>
  The function takes the oracle \<open>callLLM\<close> and, in the model, the decoder
  \<open>JSON_parse\<close> of the language as parameters; each returns a value or throws. The second
  component of the result is the list of the prompts that were sent to the oracle. The
  \<open>try\<close> block is the inner \<open>case\<close>, the \<open>catch\<close> clause the outer one.
\<close>

definition extractMemoryFromConversation ::
  "Message list \<Rightarrow> string \<Rightarrow> (string \<Rightarrow> error + string) \<Rightarrow> (string \<Rightarrow> error + json)
     \<Rightarrow> (error + json) \<times> string list" where
  "extractMemoryFromConversation messages uid callLLM JSON_parse =
     (if length messages = 0 then (Inr emptyMemory, [])
      else
        let prompt = extractionPrompt messages
        in (case (case callLLM prompt of
                    Inl thrown \<Rightarrow> Inl thrown
                  | Inr response \<Rightarrow>
                      (case jsonMatch response of
                         None \<Rightarrow> Inr emptyMemory
                       | Some jsonText \<Rightarrow>
                           (case JSON_parse jsonText of
                              Inl thrown \<Rightarrow> Inl thrown
                            | Inr parsed \<Rightarrow> Inr parsed))) of
              Inl caught \<Rightarrow> Inr emptyMemory
            | Inr result \<Rightarrow> Inr result,
            [prompt]))"

subsection \<open>Extraction as the specification words it\<close>

text \<open>
  The specification decodes "the first balanced \<open>{...}\<close> region" of the response:
  from the first \<open>{\<close> to the \<open>}\<close> that closes it. \<open>scanBalanced d\<close> reads on with
  \<open>d\<close> further braces open.
\<close>

fun scanBalanced :: "nat \<Rightarrow> string \<Rightarrow> string option" where
  "scanBalanced d [] = None"
| "scanBalanced d (c # cs) =
     (if c = CHR ''{'' then map_option (Cons c) (scanBalanced (Suc d) cs)
      else if c = CHR ''}'' then
        (case d of 0 \<Rightarrow> Some [c] | Suc d' \<Rightarrow> map_option (Cons c) (scanBalanced d' cs))
      else map_option (Cons c) (scanBalanced d cs))"

definition firstBalancedRegion :: "string \<Rightarrow> string option" where
  "firstBalancedRegion response =
     (case dropWhile (\<lambda>c. c \<noteq> CHR ''{'') response of
        [] \<Rightarrow> None
      | brace # rest \<Rightarrow> map_option (Cons brace) (scanBalanced 0 rest))"

text \<open>
  A decoder that accepts one text: it stands for \<open>JSON.parse\<close> in a concrete evaluation
  whose texts are that one, which \<open>JSON.parse\<close> decodes to the given value, and others
  that \<open>JSON.parse\<close> rejects.
\<close>

definition parsesOnly :: "string \<Rightarrow> json \<Rightarrow> string \<Rightarrow> error + json" where
  "parsesOnly accepted v jsonText = (if jsonText = accepted then Inr v else Inl SyntaxError)"

text \<open>
  A response text and the value \<open>JSON.parse\<close> decodes it to, for the concrete
  evaluations.
\<close>

definition exampleJsonText :: string where
  \<open>exampleJsonText =
     ''{"facts":[{"category":"personal","key":"location","value":"Lisbon","confidence":0.9}]}''\<close>

definition exampleMemory :: json where
  "exampleMemory =
     JObject [(''facts'', JArray [JObject
       [(''category'', JString ''personal''), (''key'', JString ''location''),
        (''value'', JString ''Lisbon''), (''confidence'', JNumber (9 / 10))]])]"

subsection \<open>The context assembler\<close>

text \<open>
  The facts are grouped in a plain object \<open>{}\<close> used as a dictionary. Reading a key
  that the object inherits from \<open>Object.prototype\<close> gives the inherited value, which is
  truthy and has no \<open>push\<close>: for a fact of such a category the callback throws a
  \<open>TypeError\<close>. These are the inherited keys.
\<close>

definition objectPrototypeKeys :: "string list" where
  "objectPrototypeKeys =
     [''constructor'', ''__defineGetter__'', ''__defineSetter__'', ''hasOwnProperty'',
      ''__lookupGetter__'', ''__lookupSetter__'', ''isPrototypeOf'', ''propertyIsEnumerable'',
      ''toString'', ''valueOf'', ''__proto__'', ''toLocaleString'']"

text \<open>
  The \<open>reduce\<close> over the facts; \<open>acc\<close> holds the own properties of the object in the
  order of their creation.
\<close>

fun groupByCategory ::
  "MemoryFact list \<Rightarrow> (string \<times> MemoryFact list) list \<Rightarrow> error + (string \<times> MemoryFact list) list" where
  "groupByCategory [] acc = Inr acc"
| "groupByCategory (f # rest) acc =
     (let c = MemoryFact.category f
      in if c \<in> set objectPrototypeKeys then Inl TypeError
         else groupByCategory rest
                (case map_of acc c of
                   None \<Rightarrow> acc @ [(c, [f])]
                 | Some categoryFacts \<Rightarrow>
                     map (\<lambda>(k, v). if k = c then (k, v @ [f]) else (k, v)) acc))"

text \<open>
  \<open>Object.entries\<close> lists the keys that are array indices (canonical decimal numerals
  up to \<open>2^32 - 2\<close>) first, in ascending numeric order, and then the other keys in the
  order of their creation.
\<close>

definition isDigit :: "char \<Rightarrow> bool" where
  "isDigit c = (48 \<le> (of_char c :: nat) \<and> (of_char c :: nat) \<le> 57)"

definition decimalValue :: "string \<Rightarrow> nat" where
  "decimalValue s = foldl (\<lambda>n c. 10 * n + (of_char c - 48)) 0 s"

definition arrayIndex :: "string \<Rightarrow> nat option" where
  "arrayIndex s =
     (if s \<noteq> [] \<and> list_all isDigit s \<and> (s = ''0'' \<or> hd s \<noteq> CHR ''0'')
         \<and> decimalValue s \<le> 4294967294
      then Some (decimalValue s) else None)"

definition objectEntries :: "(string \<times> 'a) list \<Rightarrow> (string \<times> 'a) list" where
  "objectEntries props =
     sort_key (\<lambda>(k, v). the (arrayIndex k)) (filter (\<lambda>(k, v). arrayIndex k \<noteq> None) props)
     @ filter (\<lambda>(k, v). arrayIndex k = None) props"

text \<open>\<open>slice(-n)\<close>: the last \<open>n\<close> elements, all of them when there are fewer.\<close>

definition sliceLast :: "nat \<Rightarrow> 'a list \<Rightarrow> 'a list" where
  "sliceLast n xs = drop (length xs - n) xs"

text \<open>
  \<open>String.prototype.toUpperCase\<close> maps some characters with codes below 256 to strings
  outside that range, so it is a parameter of the model.
\<close>

definition renderCategory :: "(string \<Rightarrow> string) \<Rightarrow> string \<times> MemoryFact list \<Rightarrow> string" where
  "renderCategory toUpperCase entry =
     (case entry of (cat, categoryFacts) \<Rightarrow>
        let items = joinWith ''\<newline>''
                      (map (\<lambda>f. ''- '' @ MemoryFact.key f @ '': '' @ MemoryFact.value f)
                         categoryFacts)
        in ''['' @ toUpperCase cat @ '']\<newline>'' @ items)"

definition renderMessage :: "Message \<Rightarrow> string" where
  "renderMessage m =
     Message.role m @ '': '' @ take 200 (Message.content m)
       @ (if length (Message.content m) > 200 then ''...'' else [])"

definition buildContextFromMemory ::
  "(string \<Rightarrow> string) \<Rightarrow> MemoryFact list \<Rightarrow> MemorySummary list \<Rightarrow> Message list
     \<Rightarrow> error + string" where
  "buildContextFromMemory toUpperCase factList summaryList recentMessages =
     (case (if length factList > 0 then
              (case groupByCategory factList [] of
                 Inl thrown \<Rightarrow> Inl thrown
               | Inr factsByCategory \<Rightarrow>
                   let factsSection =
                         joinWith ''\<newline>\<newline>''
                           (map (renderCategory toUpperCase) (objectEntries factsByCategory))
                   in Inr [''## User Information\<newline>'' @ factsSection])
            else Inr []) of
        Inl thrown \<Rightarrow> Inl thrown
      | Inr sections1 \<Rightarrow>
          let sections2 =
                (if length summaryList > 0 then
                   sections1 @ [''## Recent Context\<newline>'' @
                     joinWith ''\<newline>''
                       (map (\<lambda>s. ''- '' @ MemorySummary.content s) (take 3 summaryList))]
                 else sections1);
              sections3 =
                (if length recentMessages > 0 then
                   sections2 @ [''## Recent Conversation\<newline>'' @
                     joinWith ''\<newline>'' (map renderMessage (sliceLast 6 recentMessages))]
                 else sections2)
          in if length sections3 = 0 then Inr []
             else Inr (''# Memory Context\<newline>The following information has been remembered about this user:\<newline>\<newline>''
                       @ joinWith ''\<newline>\<newline>'' sections3))"

section \<open>Properties of the fact store\<close>










section \<open>Properties of the similarity engine\<close>


















section \<open>Properties of the embedder\<close>

lemma length_addWord [simp]: "length (addWord i j cs v) = length v"
  by (induction cs arbitrary: j v) (simp_all add: Let_def)

lemma length_addWords [simp]: "length (addWords i ws v) = length v"
  by (induction ws arbitrary: i v) simp_all









lemma isWordChar_lowerChar [simp]: "isWordChar (lowerChar c) = isWordChar c"
  by (auto simp: isWordChar_def lowerChar_def Let_def)

lemma isSpace_lowerChar [simp]: "isSpace (lowerChar c) = isSpace c"
  by (auto simp: isSpace_def lowerChar_def Let_def)



















lemma length_simpleEmbedding [simp]: "length (simpleEmbedding s) = 256"
  by (simp add: simpleEmbedding_def Let_def)

























section \<open>Properties of retrieval\<close>

lemma length_sortByScore [simp]: "length (sortByScore xs) = length xs"
  by (simp add: sortByScore_def)





lemma findRelevantMemories_default:
  "findRelevantMemories st uid query None = findRelevantMemories st uid query (Some 5)"
  by (simp add: findRelevantMemories_def)




section \<open>Properties of extraction\<close>

text \<open>
  C7. On the empty transcript \<open>extractMemoryFromConversation\<close> returns \<open>{ facts: [] }\<close>
  and sends no prompt to the oracle.
\<close>

theorem extractMemoryFromConversation_empty:
  "extractMemoryFromConversation [] uid callLLM JSON_parse = (Inr emptyMemory, [])"
  by (simp add: extractMemoryFromConversation_def)

lemma jsonMatch_unfold:
  assumes "dropWhile (\<lambda>c. c \<noteq> CHR ''{'') response = b # rest"
  shows "jsonMatch response =
     (if rev (dropWhile (\<lambda>c. c \<noteq> CHR ''}'') (rev rest)) = [] then None
      else Some (b # rev (dropWhile (\<lambda>c. c \<noteq> CHR ''}'') (rev rest))))"
  unfolding jsonMatch_def assms
  by (cases "rev (dropWhile (\<lambda>c. c \<noteq> CHR ''}'') (rev rest))")
     (simp_all only: list.case list.distinct if_True if_False simp_thms)

lemma jsonMatch_region:
  assumes "CHR ''{'' \<notin> set pre" and "CHR ''}'' \<notin> set post"
  shows "jsonMatch (pre @ CHR ''{'' # mid @ CHR ''}'' # post) = Some (CHR ''{'' # mid @ [CHR ''}''])"
proof -
  have 1: "dropWhile (\<lambda>c. c \<noteq> CHR ''{'') (pre @ CHR ''{'' # mid @ CHR ''}'' # post)
           = CHR ''{'' # mid @ CHR ''}'' # post"
    using assms(1) by (subst dropWhile_append2) auto
  have "dropWhile (\<lambda>c. c \<noteq> CHR ''}'') (rev post @ CHR ''}'' # rev mid) = CHR ''}'' # rev mid"
    using assms(2) by (subst dropWhile_append2) auto
  then have 2: "rev (dropWhile (\<lambda>c. c \<noteq> CHR ''}'') (rev (mid @ CHR ''}'' # post))) = mid @ [CHR ''}'']"
    by simp
  show ?thesis
    by (simp only: jsonMatch_unfold [OF 1] 2) simp
qed

lemma jsonMatch_SomeD:
  assumes "jsonMatch response = Some m"
  shows "\<exists>pre mid post. response = pre @ CHR ''{'' # mid @ CHR ''}'' # post
           \<and> CHR ''{'' \<notin> set pre \<and> CHR ''}'' \<notin> set post \<and> m = CHR ''{'' # mid @ [CHR ''}'']"
proof -
  let ?P = "\<lambda>c. c \<noteq> CHR ''{''" and ?Q = "\<lambda>c. c \<noteq> CHR ''}''"
  from assms obtain b rest where d: "dropWhile ?P response = b # rest"
    by (cases "dropWhile ?P response") (auto simp: jsonMatch_def)
  then have b: "b = CHR ''{''" using hd_dropWhile [of ?P response] by auto
  have r: "response = takeWhile ?P response @ CHR ''{'' # rest"
    using takeWhile_dropWhile_id [of ?P response] d b by simp
  from assms jsonMatch_unfold [OF d]
  have ne: "rev (dropWhile ?Q (rev rest)) \<noteq> []"
    and m: "m = b # rev (dropWhile ?Q (rev rest))"
    by (auto split: if_splits)
  then obtain x xs where dq: "dropWhile ?Q (rev rest) = x # xs"
    by (cases "dropWhile ?Q (rev rest)") auto
  then have x: "x = CHR ''}''" using hd_dropWhile [of ?Q "rev rest"] by auto
  have "rev rest = takeWhile ?Q (rev rest) @ CHR ''}'' # xs"
    using takeWhile_dropWhile_id [of ?Q "rev rest"] dq x by simp
  then have "rev (rev rest) = rev (takeWhile ?Q (rev rest) @ CHR ''}'' # xs)" by simp
  then have rest: "rest = rev xs @ CHR ''}'' # rev (takeWhile ?Q (rev rest))" by simp
  have m': "m = CHR ''{'' # rev xs @ [CHR ''}'']" using m b dq x by simp
  have p1: "CHR ''{'' \<notin> set (takeWhile ?P response)"
    by (auto dest: set_takeWhileD)
  have p2: "CHR ''}'' \<notin> set (rev (takeWhile ?Q (rev rest)))"
    by (auto dest: set_takeWhileD)
  have "response = takeWhile ?P response @ CHR ''{'' # rev xs @ CHR ''}'' # rev (takeWhile ?Q (rev rest))"
    using r rest by simp
  with p1 p2 m' show ?thesis by blast
qed

lemma brace_after_first_brace:
  "CHR ''}'' \<in> set (tl (dropWhile (\<lambda>c. c \<noteq> CHR ''{'') (pre @ CHR ''{'' # mid @ CHR ''}'' # post)))"
proof (cases "\<forall>c\<in>set pre. c \<noteq> CHR ''{''")
  case True
  then have "dropWhile (\<lambda>c. c \<noteq> CHR ''{'') (pre @ CHR ''{'' # mid @ CHR ''}'' # post)
             = CHR ''{'' # mid @ CHR ''}'' # post"
    by (subst dropWhile_append2) auto
  then show ?thesis by simp
next
  case False
  then obtain c where c: "c \<in> set pre" "\<not> c \<noteq> CHR ''{''" by blast
  then have e: "dropWhile (\<lambda>c. c \<noteq> CHR ''{'') (pre @ CHR ''{'' # mid @ CHR ''}'' # post)
             = dropWhile (\<lambda>c. c \<noteq> CHR ''{'') pre @ CHR ''{'' # mid @ CHR ''}'' # post"
    by (rule dropWhile_append1)
  from c have "dropWhile (\<lambda>c. c \<noteq> CHR ''{'') pre \<noteq> []"
    by (auto simp: dropWhile_eq_Nil_conv)
  then show ?thesis unfolding e by (cases "dropWhile (\<lambda>c. c \<noteq> CHR ''{'') pre") auto
qed

lemma jsonMatch_None_iff:
  "jsonMatch response = None \<longleftrightarrow>
     \<not> (\<exists>pre mid post. response = pre @ CHR ''{'' # mid @ CHR ''}'' # post)"
proof
  assume n: "jsonMatch response = None"
  show "\<not> (\<exists>pre mid post. response = pre @ CHR ''{'' # mid @ CHR ''}'' # post)"
  proof
    assume "\<exists>pre mid post. response = pre @ CHR ''{'' # mid @ CHR ''}'' # post"
    then obtain pre mid post where r: "response = pre @ CHR ''{'' # mid @ CHR ''}'' # post"
      by blast
    let ?P = "\<lambda>c. c \<noteq> CHR ''{''" and ?Q = "\<lambda>c. c \<noteq> CHR ''}''"
    have t: "CHR ''}'' \<in> set (tl (dropWhile ?P response))"
      unfolding r by (rule brace_after_first_brace)
    then obtain b rest where d: "dropWhile ?P response = b # rest"
      by (cases "dropWhile ?P response") auto
    with t have "CHR ''}'' \<in> set (rev rest)" by simp
    then have "dropWhile ?Q (rev rest) \<noteq> []" by (auto simp: dropWhile_eq_Nil_conv)
    then have "jsonMatch response \<noteq> None"
      by (simp add: jsonMatch_unfold [OF d])
    with n show False by simp
  qed
next
  assume "\<not> (\<exists>pre mid post. response = pre @ CHR ''{'' # mid @ CHR ''}'' # post)"
  then show "jsonMatch response = None"
    using jsonMatch_SomeD [of response] by (cases "jsonMatch response") auto
qed

text \<open>
  C6 (amended). On a transcript that is not empty the function sends one prompt and
  never fails. It returns \<open>{ facts: [] }\<close> when the oracle fails, when the response has
  no \<open>{\<close> with a \<open>}\<close> after it, and when the decoder rejects the text it is given;
  otherwise it returns what the decoder returns. The text given to the decoder is the
  span from the first \<open>{\<close> of the response to its last \<open>}\<close>.
\<close>

theorem extractMemoryFromConversation_fail_soft:
  assumes "messages \<noteq> []"
  shows "(\<exists>j. fst (extractMemoryFromConversation messages uid callLLM JSON_parse) = Inr j)
     \<and> snd (extractMemoryFromConversation messages uid callLLM JSON_parse)
         = [extractionPrompt messages]
     \<and> (callLLM (extractionPrompt messages) = Inl e \<longrightarrow>
          fst (extractMemoryFromConversation messages uid callLLM JSON_parse) = Inr emptyMemory)
     \<and> (callLLM (extractionPrompt messages) = Inr response
          \<and> \<not> (\<exists>pre mid post. response = pre @ CHR ''{'' # mid @ CHR ''}'' # post) \<longrightarrow>
          fst (extractMemoryFromConversation messages uid callLLM JSON_parse) = Inr emptyMemory)
     \<and> (callLLM (extractionPrompt messages) = Inr (pre @ CHR ''{'' # mid @ CHR ''}'' # post)
          \<and> CHR ''{'' \<notin> set pre \<and> CHR ''}'' \<notin> set post \<longrightarrow>
          fst (extractMemoryFromConversation messages uid callLLM JSON_parse)
          = Inr (case JSON_parse (CHR ''{'' # mid @ [CHR ''}'']) of
                   Inl thrown \<Rightarrow> emptyMemory
                 | Inr parsed \<Rightarrow> parsed))"
proof -
  let ?r = "extractMemoryFromConversation messages uid callLLM JSON_parse"
  have 1: "\<exists>j. fst ?r = Inr j"
    using assms by (simp add: extractMemoryFromConversation_def Let_def split: sum.split option.split)
  have 2: "snd ?r = [extractionPrompt messages]"
    using assms by (simp add: extractMemoryFromConversation_def Let_def)
  have 3: "callLLM (extractionPrompt messages) = Inl e \<longrightarrow> fst ?r = Inr emptyMemory"
    using assms by (simp add: extractMemoryFromConversation_def Let_def)
  have 4: "callLLM (extractionPrompt messages) = Inr response
          \<and> \<not> (\<exists>pre mid post. response = pre @ CHR ''{'' # mid @ CHR ''}'' # post) \<longrightarrow>
          fst ?r = Inr emptyMemory"
    using assms jsonMatch_None_iff [of response]
    by (auto simp: extractMemoryFromConversation_def Let_def)
  have 5: "callLLM (extractionPrompt messages) = Inr (pre @ CHR ''{'' # mid @ CHR ''}'' # post)
          \<and> CHR ''{'' \<notin> set pre \<and> CHR ''}'' \<notin> set post \<longrightarrow>
          fst ?r = Inr (case JSON_parse (CHR ''{'' # mid @ [CHR ''}'']) of
                   Inl thrown \<Rightarrow> emptyMemory
                 | Inr parsed \<Rightarrow> parsed)"
    using assms
    by (auto simp: extractMemoryFromConversation_def Let_def jsonMatch_region split: sum.split)
  from 1 2 3 4 5 show ?thesis by blast
qed

text \<open>C6 at a response with a JSON object, at a failing oracle and at a response without braces.\<close>

theorem extractMemoryFromConversation_fail_soft_witness:
  "[\<lparr> Message.role = ''user'', content = ''I live in Lisbon'' \<rparr>] \<noteq> []
   \<and> fst (extractMemoryFromConversation
          [\<lparr> Message.role = ''user'', content = ''I live in Lisbon'' \<rparr>] ''u1''
          (\<lambda>prompt. Inr (''Here you go: '' @ exampleJsonText @ '' Done.''))
          (parsesOnly exampleJsonText exampleMemory)) = Inr exampleMemory
   \<and> fst (extractMemoryFromConversation
          [\<lparr> Message.role = ''user'', content = ''I live in Lisbon'' \<rparr>] ''u1''
          (\<lambda>prompt. Inl OracleError)
          (parsesOnly exampleJsonText exampleMemory)) = Inr emptyMemory
   \<and> fst (extractMemoryFromConversation
          [\<lparr> Message.role = ''user'', content = ''I live in Lisbon'' \<rparr>] ''u1''
          (\<lambda>prompt. Inr ''I found no facts.'')
          (parsesOnly exampleJsonText exampleMemory)) = Inr emptyMemory"
proof -
  let ?ms = "[\<lparr> Message.role = ''user'', content = ''I live in Lisbon'' \<rparr>]"
  let ?mid = "butlast (tl exampleJsonText)"
  have ne: "?ms \<noteq> []" by simp
  have t: "exampleJsonText = CHR ''{'' # ?mid @ [CHR ''}'']"
    by (simp add: exampleJsonText_def)
  have r: "''Here you go: '' @ exampleJsonText @ '' Done.''
           = ''Here you go: '' @ CHR ''{'' # ?mid @ CHR ''}'' # '' Done.''"
    by (subst t) simp
  have p: "parsesOnly exampleJsonText exampleMemory (CHR ''{'' # ?mid @ [CHR ''}''])
           = Inr exampleMemory"
    unfolding t [symmetric] by (simp add: parsesOnly_def)
  have n: "\<not> (\<exists>pre mid post. ''I found no facts.'' = pre @ CHR ''{'' # mid @ CHR ''}'' # post)"
  proof
    assume "\<exists>pre mid post. ''I found no facts.'' = pre @ CHR ''{'' # mid @ CHR ''}'' # post"
    then obtain pre mid post where "''I found no facts.'' = pre @ CHR ''{'' # mid @ CHR ''}'' # post"
      by blast
    then have "CHR ''{'' \<in> set ''I found no facts.''"
      by (metis in_set_conv_decomp)
    then show False by simp
  qed
  have 1: "fst (extractMemoryFromConversation ?ms ''u1''
          (\<lambda>prompt. Inr (''Here you go: '' @ exampleJsonText @ '' Done.''))
          (parsesOnly exampleJsonText exampleMemory)) = Inr exampleMemory"
    using extractMemoryFromConversation_fail_soft [OF ne, of "''u1''"
        "\<lambda>prompt. Inr (''Here you go: '' @ exampleJsonText @ '' Done.'')"
        "parsesOnly exampleJsonText exampleMemory" OracleError "[]"
        "''Here you go: ''" ?mid "'' Done.''"] r p
    by simp
  have 2: "fst (extractMemoryFromConversation ?ms ''u1'' (\<lambda>prompt. Inl OracleError)
          (parsesOnly exampleJsonText exampleMemory)) = Inr emptyMemory"
    using extractMemoryFromConversation_fail_soft [OF ne, of "''u1''"
        "\<lambda>prompt. Inl OracleError"
        "parsesOnly exampleJsonText exampleMemory" OracleError "[]" "[]" "[]" "[]"]
    by simp
  have 3: "fst (extractMemoryFromConversation ?ms ''u1'' (\<lambda>prompt. Inr ''I found no facts.'')
          (parsesOnly exampleJsonText exampleMemory)) = Inr emptyMemory"
    using extractMemoryFromConversation_fail_soft [OF ne, of "''u1''"
        "\<lambda>prompt. Inr ''I found no facts.''"
        "parsesOnly exampleJsonText exampleMemory" OracleError "''I found no facts.''" "[]" "[]" "[]"] n
    by simp
  from ne 1 2 3 show ?thesis by blast
qed

text \<open>
  C6, the claim as stated, fails: when a brace follows the JSON object in the response,
  the first balanced region is the object, which decodes to one fact, but the function
  hands the decoder the text up to the last \<open>}\<close>, which is not JSON, and returns
  \<open>{ facts: [] }\<close>.
\<close>

theorem extractMemoryFromConversation_not_first_region:
  "firstBalancedRegion (exampleJsonText @ '' Note: {unsure} items were left out.'')
     = Some exampleJsonText
   \<and> parsesOnly exampleJsonText exampleMemory exampleJsonText = Inr exampleMemory
   \<and> fst (extractMemoryFromConversation
          [\<lparr> Message.role = ''user'', content = ''I live in Lisbon'' \<rparr>] ''u1''
          (\<lambda>prompt. Inr (exampleJsonText @ '' Note: {unsure} items were left out.''))
          (parsesOnly exampleJsonText exampleMemory)) = Inr emptyMemory
   \<and> exampleMemory \<noteq> emptyMemory"
proof -
  have 1: "firstBalancedRegion (exampleJsonText @ '' Note: {unsure} items were left out.'')
     = Some exampleJsonText"
    by (simp add: firstBalancedRegion_def exampleJsonText_def)
  have 2: "parsesOnly exampleJsonText exampleMemory exampleJsonText = Inr exampleMemory"
    by (simp add: parsesOnly_def)
  have m: "jsonMatch (exampleJsonText @ '' Note: {unsure} items were left out.'')
     = Some (exampleJsonText @ '' Note: {unsure}'')"
    by (simp add: jsonMatch_def exampleJsonText_def)
  have 3: "fst (extractMemoryFromConversation
          [\<lparr> Message.role = ''user'', content = ''I live in Lisbon'' \<rparr>] ''u1''
          (\<lambda>prompt. Inr (exampleJsonText @ '' Note: {unsure} items were left out.''))
          (parsesOnly exampleJsonText exampleMemory)) = Inr emptyMemory"
    by (simp add: extractMemoryFromConversation_def Let_def m parsesOnly_def)
  have 4: "exampleMemory \<noteq> emptyMemory"
    by (simp add: exampleMemory_def emptyMemory_def)
  from 1 2 3 4 show ?thesis by blast
qed

section \<open>Properties of the context assembler\<close>

lemma groupByCategory_throws:
  "(\<exists>f\<in>set fs. MemoryFact.category f \<in> set objectPrototypeKeys)
     \<Longrightarrow> groupByCategory fs acc = Inl TypeError"
  by (induction fs arbitrary: acc) (auto simp: Let_def)

lemma groupByCategory_returns:
  "\<not> (\<exists>f\<in>set fs. MemoryFact.category f \<in> set objectPrototypeKeys)
     \<Longrightarrow> \<exists>g. groupByCategory fs acc = Inr g"
  by (induction fs arbitrary: acc) (auto simp: Let_def)

lemma buildContextFromMemory_throws_iff:
  "buildContextFromMemory up fs ss ms = Inl TypeError
     \<longleftrightarrow> (\<exists>f\<in>set fs. MemoryFact.category f \<in> set objectPrototypeKeys)"
proof (cases "\<exists>f\<in>set fs. MemoryFact.category f \<in> set objectPrototypeKeys")
  case True
  then have "fs \<noteq> []" by auto
  with True groupByCategory_throws [OF True, of "[]"] show ?thesis
    by (simp add: buildContextFromMemory_def)
next
  case False
  from groupByCategory_returns [OF False, of "[]"] obtain g where "groupByCategory fs [] = Inr g"
    by blast
  with False show ?thesis
    by (simp add: buildContextFromMemory_def Let_def)
qed

lemma buildContextFromMemory_empty: "buildContextFromMemory up [] [] [] = Inr []"
  by (simp add: buildContextFromMemory_def)

lemma map_of_snoc:
  "map_of (acc @ [(c, v)]) k =
     (case map_of acc k of None \<Rightarrow> (if k = c then Some v else None) | Some w \<Rightarrow> Some w)"
  by (induction acc) (auto split: option.split)

lemma map_of_push:
  "map_of (map (\<lambda>(k, v). if k = c then (k, v @ [f]) else (k, v)) acc) k =
     (case map_of acc k of None \<Rightarrow> None | Some w \<Rightarrow> Some (if k = c then w @ [f] else w))"
  by (induction acc) (auto split: option.split)

lemma fst_push:
  "map (fst \<circ> (\<lambda>(k, v). if k = c then (k, v @ [f]) else (k, v))) acc = map fst acc"
  by (induction acc) auto

lemma groupByCategory_groups:
  assumes "groupByCategory fs acc = Inr g"
  shows "map_of g c =
     (case map_of acc c of
        None \<Rightarrow> (if c \<in> MemoryFact.category ` set fs
                 then Some (filter (\<lambda>f. MemoryFact.category f = c) fs) else None)
      | Some w \<Rightarrow> Some (w @ filter (\<lambda>f. MemoryFact.category f = c) fs))"
  using assms
proof (induction fs arbitrary: acc)
  case Nil
  then show ?case by (auto split: option.split)
next
  case (Cons f rest)
  let ?c = "MemoryFact.category f"
  let ?acc = "case map_of acc ?c of
                None \<Rightarrow> acc @ [(?c, [f])]
              | Some categoryFacts \<Rightarrow> map (\<lambda>(k, v). if k = ?c then (k, v @ [f]) else (k, v)) acc"
  from Cons.prems have ok: "?c \<notin> set objectPrototypeKeys"
    and rest: "groupByCategory rest ?acc = Inr g"
    by (auto simp: Let_def split: if_splits)
  note IH = Cons.IH [OF rest]
  show ?case
  proof (cases "map_of acc ?c")
    case None
    then have "?acc = acc @ [(?c, [f])]" by simp
    then have "map_of ?acc c =
        (case map_of acc c of None \<Rightarrow> (if c = ?c then Some [f] else None) | Some w \<Rightarrow> Some w)"
      by (simp only: map_of_snoc)
    with IH None show ?thesis
      by (auto split: option.split)
  next
    case (Some w0)
    then have "?acc = map (\<lambda>(k, v). if k = ?c then (k, v @ [f]) else (k, v)) acc" by simp
    then have "map_of ?acc c =
        (case map_of acc c of None \<Rightarrow> None | Some w \<Rightarrow> Some (if c = ?c then w @ [f] else w))"
      by (simp only: map_of_push)
    with IH Some show ?thesis
      by (auto split: option.split)
  qed
qed

lemma groupByCategory_distinct:
  assumes "groupByCategory fs acc = Inr g" and "distinct (map fst acc)"
  shows "distinct (map fst g)"
  using assms
proof (induction fs arbitrary: acc)
  case Nil
  then show ?case by simp
next
  case (Cons f rest)
  let ?c = "MemoryFact.category f"
  let ?acc = "case map_of acc ?c of
                None \<Rightarrow> acc @ [(?c, [f])]
              | Some categoryFacts \<Rightarrow> map (\<lambda>(k, v). if k = ?c then (k, v @ [f]) else (k, v)) acc"
  from Cons.prems have rest: "groupByCategory rest ?acc = Inr g"
    by (auto simp: Let_def split: if_splits)
  have "distinct (map fst ?acc)"
    using Cons.prems(2)
    by (auto simp: fst_push map_of_eq_None_iff split: option.split)
  from Cons.IH [OF rest this] show ?case .
qed

lemma set_objectEntries: "set (objectEntries props) = set props"
  by (auto simp: objectEntries_def)

lemma length_objectEntries: "length (objectEntries props) = length props"
proof -
  have "length (filter (\<lambda>(k, v). arrayIndex k \<noteq> None) props)
        + length (filter (\<lambda>(k, v). arrayIndex k = None) props) = length props"
    by (induction props) auto
  then show ?thesis by (simp add: objectEntries_def)
qed

lemma groupByCategory_headers:
  assumes "groupByCategory fs [] = Inr g"
  shows "set (map fst (objectEntries g)) = MemoryFact.category ` set fs"
    and "distinct (map fst (objectEntries g))"
    and "(c, xs) \<in> set (objectEntries g) \<Longrightarrow> xs = filter (\<lambda>f. MemoryFact.category f = c) fs"
proof -
  have d: "distinct (map fst g)"
    using groupByCategory_distinct [OF assms] by simp
  have m: "map_of g c = (if c \<in> MemoryFact.category ` set fs
                 then Some (filter (\<lambda>f. MemoryFact.category f = c) fs) else None)" for c
    using groupByCategory_groups [OF assms, of c] by simp
  have "set (map fst g) = MemoryFact.category ` set fs"
  proof (rule set_eqI)
    fix c
    have "c \<in> set (map fst g) \<longleftrightarrow> map_of g c \<noteq> None"
      by (simp add: map_of_eq_None_iff)
    then show "c \<in> set (map fst g) \<longleftrightarrow> c \<in> MemoryFact.category ` set fs"
      by (simp add: m)
  qed
  then show "set (map fst (objectEntries g)) = MemoryFact.category ` set fs"
    by (simp add: set_objectEntries)
  have "card (set (map fst (objectEntries g))) = length (map fst (objectEntries g))"
    using d distinct_card [of "map fst g"]
    by (simp add: set_objectEntries length_objectEntries)
  then show "distinct (map fst (objectEntries g))"
    by (rule card_distinct)
  assume "(c, xs) \<in> set (objectEntries g)"
  then have "(c, xs) \<in> set g" by (simp add: set_objectEntries)
  with d have "map_of g c = Some xs" by simp
  with m [of c] show "xs = filter (\<lambda>f. MemoryFact.category f = c) fs"
    by (simp split: if_splits)
qed

lemma renderMessage_length:
  "renderMessage m =
     (if length (Message.content m) \<le> 200 then Message.role m @ '': '' @ Message.content m
      else Message.role m @ '': '' @ take 200 (Message.content m) @ ''...'')"
  by (simp add: renderMessage_def)

lemma sliceLast_length: "length (sliceLast n xs) = min n (length xs)"
  by (simp add: sliceLast_def)

lemma sliceLast_suffix: "\<exists>ys. xs = ys @ sliceLast n xs"
  unfolding sliceLast_def by (metis append_take_drop_id)

lemma buildContextFromMemory_sections:
  assumes "\<not> (\<exists>f\<in>set fs. MemoryFact.category f \<in> set objectPrototypeKeys)"
  shows "\<exists>g. groupByCategory fs [] = Inr g \<and>
     buildContextFromMemory up fs ss ms =
       Inr (if fs = [] \<and> ss = [] \<and> ms = [] then []
            else ''# Memory Context\<newline>The following information has been remembered about this user:\<newline>\<newline>''
                 @ joinWith ''\<newline>\<newline>''
                     ((if fs = [] then [] else
                         [''## User Information\<newline>'' @
                          joinWith ''\<newline>\<newline>'' (map (renderCategory up) (objectEntries g))])
                      @ (if ss = [] then [] else
                         [''## Recent Context\<newline>'' @
                          joinWith ''\<newline>''
                            (map (\<lambda>s. ''- '' @ MemorySummary.content s) (take 3 ss))])
                      @ (if ms = [] then [] else
                         [''## Recent Conversation\<newline>'' @
                          joinWith ''\<newline>'' (map renderMessage (sliceLast 6 ms))])))"
proof -
  from groupByCategory_returns [OF assms, of "[]"] obtain g where g: "groupByCategory fs [] = Inr g"
    by blast
  then have "buildContextFromMemory up fs ss ms =
       Inr (if fs = [] \<and> ss = [] \<and> ms = [] then []
            else ''# Memory Context\<newline>The following information has been remembered about this user:\<newline>\<newline>''
                 @ joinWith ''\<newline>\<newline>''
                     ((if fs = [] then [] else
                         [''## User Information\<newline>'' @
                          joinWith ''\<newline>\<newline>'' (map (renderCategory up) (objectEntries g))])
                      @ (if ss = [] then [] else
                         [''## Recent Context\<newline>'' @
                          joinWith ''\<newline>''
                            (map (\<lambda>s. ''- '' @ MemorySummary.content s) (take 3 ss))])
                      @ (if ms = [] then [] else
                         [''## Recent Conversation\<newline>'' @
                          joinWith ''\<newline>'' (map renderMessage (sliceLast 6 ms))])))"
    by (simp add: buildContextFromMemory_def Let_def)
  with g show ?thesis by blast
qed

text \<open>
  C8 fails on the code for a fact whose category is a key that every object inherits:
  for the one fact of category \<open>constructor\<close> the function throws a \<open>TypeError\<close>
  and emits no context block.
\<close>

theorem buildContextFromMemory_prototype_category:
  "buildContextFromMemory toUpperCase
     [\<lparr> MemoryFact.id = 0, userId = ''u1'', category = ''constructor'', key = ''role'',
        value = ''site foreman'', confidence = Some 1, sourceMessageId = None,
        createdAt = 0, updatedAt = 0 \<rparr>] [] []
   = Inl TypeError"
  by (simp add: buildContextFromMemory_def objectPrototypeKeys_def)

end
